theory Spec2Isabelle
  imports Main
begin

section \<open>Values of the plugin framework used by the provider\<close>

text \<open>
  The provider model \<^verbatim>\<open>snaProviderModel\<close> holds three \<^verbatim>\<open>types.String\<close> values.  Such a
  value is null, unknown, or known with a Go string; \<^verbatim>\<open>ValueString\<close> of a null or unknown
  value is the empty string.
\<close>

datatype types_String = StringNull | StringUnknown | StringValue string

fun IsNull :: "types_String \<Rightarrow> bool" where
  "IsNull StringNull = True"
| "IsNull StringUnknown = False"
| "IsNull (StringValue v) = False"

fun IsUnknown :: "types_String \<Rightarrow> bool" where
  "IsUnknown StringNull = False"
| "IsUnknown StringUnknown = True"
| "IsUnknown (StringValue v) = False"

fun ValueString :: "types_String \<Rightarrow> string" where
  "ValueString StringNull = []"
| "ValueString StringUnknown = []"
| "ValueString (StringValue v) = v"

record snaProviderModel =
  Host :: types_String
  Username :: types_String
  Password :: types_String

subsection \<open>Diagnostics\<close>

text \<open>
  A diagnostic has a severity, a summary and a detail, and an attribute path when it was
  made by \<^verbatim>\<open>AddAttributeError\<close> (\<^verbatim>\<open>path.Root(name)\<close> is the one-step path \<open>name\<close>).
  \<^verbatim>\<open>Diagnostics\<close> is a slice in insertion order.  The framework's \<^verbatim>\<open>Append\<close> skips a
  diagnostic that the collection already contains; \<^verbatim>\<open>AddError\<close> and
  \<^verbatim>\<open>AddAttributeError\<close> build an error diagnostic and go through \<^verbatim>\<open>Append\<close>.
  \<^verbatim>\<open>HasError\<close> looks for an entry of severity error.
\<close>

datatype Severity = SeverityInvalid | SeverityError | SeverityWarning

record Diagnostic =
  fieldPath :: "string option"
  severity :: Severity
  summary :: string
  detail :: string

type_synonym Diagnostics = "Diagnostic list"

primrec HasError :: "Diagnostics \<Rightarrow> bool" where
  "HasError [] = False"
| "HasError (d # ds) = (if severity d = SeverityError then True else HasError ds)"

primrec Contains :: "Diagnostics \<Rightarrow> Diagnostic \<Rightarrow> bool" where
  "Contains [] x = False"
| "Contains (d # ds) x = (if d = x then True else Contains ds x)"

fun Append :: "Diagnostics \<Rightarrow> Diagnostic list \<Rightarrow> Diagnostics" where
  "Append diags [] = diags"
| "Append diags (d # ins) =
     (if Contains diags d then Append diags ins else Append (diags @ [d]) ins)"

definition path_Root :: "string \<Rightarrow> string option" where
  "path_Root name = Some name"

definition NewAttributeErrorDiagnostic :: "string option \<Rightarrow> string \<Rightarrow> string \<Rightarrow> Diagnostic" where
  "NewAttributeErrorDiagnostic p s d =
     \<lparr>fieldPath = p, severity = SeverityError, summary = s, detail = d\<rparr>"

definition NewErrorDiagnostic :: "string \<Rightarrow> string \<Rightarrow> Diagnostic" where
  "NewErrorDiagnostic s d =
     \<lparr>fieldPath = None, severity = SeverityError, summary = s, detail = d\<rparr>"

definition AddAttributeError :: "Diagnostics \<Rightarrow> string option \<Rightarrow> string \<Rightarrow> string \<Rightarrow> Diagnostics" where
  "AddAttributeError diags p s d = Append diags [NewAttributeErrorDiagnostic p s d]"

definition AddError :: "Diagnostics \<Rightarrow> string \<Rightarrow> string \<Rightarrow> Diagnostics" where
  "AddError diags s d = Append diags [NewErrorDiagnostic s d]"

subsection \<open>Request, response, environment, effects\<close>

text \<open>
  \<^verbatim>\<open>req.Config.Get(ctx, &config)\<close> is framework code: the request is modelled by what
  that call returns, the diagnostics and the decoded model.  The response carries the
  diagnostics and the two slots that hand the client to data sources and resources
  (\<open>None\<close> is Go's nil).  The process environment is a partial map; \<^verbatim>\<open>os.Getenv\<close>
  gives the empty string for an unset variable.  The client constructor
  \<^verbatim>\<open>sna.NewClient\<close> is an external collaborator and is a parameter of \<open>Configure\<close>:
  it returns the text of its error (\<open>Inl\<close>) or a client.

  Calls that act outside the response are recorded, in order, in a list of events:
  log records (level and message; the fields set on the logging context are not
  modelled), reads of the environment, and calls of the client constructor.
\<close>

record ConfigureRequest =
  Config_Get_diags :: "Diagnostic list"
  Config_Get_value :: snaProviderModel

record 'c ConfigureResponse =
  Diagnostics :: Diagnostics
  DataSourceData :: "'c option"
  ResourceData :: "'c option"

type_synonym environ = "string \<rightharpoonup> string"

definition Getenv :: "environ \<Rightarrow> string \<Rightarrow> string" where
  "Getenv env key = (case env key of None \<Rightarrow> [] | Some v \<Rightarrow> v)"

datatype event =
  LogInfo string
| LogDebug string
| EnvRead string
| ClientNew string string string

section \<open>The provider's Configure\<close>

text \<open>Lines 86-111: one attribute error for each unknown value.\<close>

definition checkUnknown :: "snaProviderModel \<Rightarrow> Diagnostics \<Rightarrow> Diagnostics" where
  "checkUnknown config diags0 =
    (let diags1 = (if IsUnknown (Host config) then
            AddAttributeError diags0 (path_Root ''host'')
              ''Unknown Secure Network Analytics API Host''
              (''The provider cannot create the Secure Network Analytics API client as there is an unknown configuration value for the Secure Network Analytics API host. '' @
               ''Either target apply the source of the value first, set the value statically in the configuration, or use the SNA_HOST environment variable.'')
          else diags0);
         diags2 = (if IsUnknown (Username config) then
            AddAttributeError diags1 (path_Root ''username'')
              ''Unknown Secure Network Analytics API Username''
              (''The provider cannot create the Secure Network Analytics API client as there is an unknown configuration value for the Secure Network Analytics API username. '' @
               ''Either target apply the source of the value first, set the value statically in the configuration, or use the SNA_USERNAME environment variable.'')
          else diags1);
         diags3 = (if IsUnknown (Password config) then
            AddAttributeError diags2 (path_Root ''password'')
              ''Unknown Secure Network Analytics API Password''
              (''The provider cannot create the Secure Network Analytics API client as there is an unknown configuration value for the Secure Network Analytics API password. '' @
               ''Either target apply the source of the value first, set the value statically in the configuration, or use the SNA_PASSWORD environment variable.'')
          else diags2)
     in diags3)"

text \<open>Lines 120-134: the environment's values, overridden by every value that is not null.\<close>

definition mergeEnv :: "environ \<Rightarrow> snaProviderModel \<Rightarrow> string \<times> string \<times> string" where
  "mergeEnv env config =
    (let host0 = Getenv env ''SNA_HOST'';
         username0 = Getenv env ''SNA_USERNAME'';
         password0 = Getenv env ''SNA_PASSWORD'';
         host = (if \<not> IsNull (Host config) then ValueString (Host config) else host0);
         username = (if \<not> IsNull (Username config) then ValueString (Username config) else username0);
         password = (if \<not> IsNull (Password config) then ValueString (Password config) else password0)
     in (host, username, password))"

text \<open>Lines 139-167: one attribute error for each merged value that is empty.\<close>

definition checkMissing :: "string \<Rightarrow> string \<Rightarrow> string \<Rightarrow> Diagnostics \<Rightarrow> Diagnostics" where
  "checkMissing host username password diags0 =
    (let diags1 = (if host = [] then
            AddAttributeError diags0 (path_Root ''host'')
              ''Missing Secure Network Analytics API Host''
              (''The provider cannot create the Secure Network Analytics API client as there is a missing or empty value for the Secure Network Analytics API host. '' @
               ''Set the host value in the configuration or use the SNA_HOST environment variable. '' @
               ''If either is already set, ensure the value is not empty.'')
          else diags0);
         diags2 = (if username = [] then
            AddAttributeError diags1 (path_Root ''username'')
              ''Missing Secure Network Analytics API Username''
              (''The provider cannot create the Secure Network Analytics API client as there is a missing or empty value for the Secure Network Analytics API username. '' @
               ''Set the username value in the configuration or use the SNA_USERNAME environment variable. '' @
               ''If either is already set, ensure the value is not empty.'')
          else diags1);
         diags3 = (if password = [] then
            AddAttributeError diags2 (path_Root ''password'')
              ''Missing Secure Network Analytics API Password''
              (''The provider cannot create the Secure Network Analytics API client as there is a missing or empty value for the Secure Network Analytics API password. '' @
               ''Set the password value in the configuration or use the SNA_PASSWORD environment variable. '' @
               ''If either is already set, ensure the value is not empty.'')
          else diags2)
     in diags3)"

text \<open>Lines 182-189: the diagnostic for a failed construction, \<open>err\<close> being \<^verbatim>\<open>err.Error()\<close>.\<close>

definition addClientError :: "Diagnostics \<Rightarrow> string \<Rightarrow> Diagnostics" where
  "addClientError diags err =
     AddError diags
       ''Unable to Create Secure Network Analytics API Client''
       (''An unexpected error occurred when creating the Secure Network Analytics API client. '' @
        ''If the error is not clear, please contact the provider developers.'' @ [CHR 0x0A, CHR 0x0A] @
        ''Secure Network Analytics Client Error: '' @ err)"

text \<open>
  Lines 73-198.  The result is the response as the method leaves it, and the events in
  the order in which they happened.
\<close>

definition Configure ::
  "environ \<Rightarrow> (string \<Rightarrow> string \<Rightarrow> string \<Rightarrow> string + 'c) \<Rightarrow> ConfigureRequest \<Rightarrow>
     'c ConfigureResponse \<Rightarrow> 'c ConfigureResponse \<times> event list" where
  "Configure env NewClient req resp0 =
    (let tr0 = [LogInfo ''Configuring Secure Network Analytics client''];
         config = Config_Get_value req;
         diags = Config_Get_diags req;
         resp1 = resp0\<lparr>Diagnostics := Append (Diagnostics resp0) diags\<rparr>
     in if HasError (Diagnostics resp1) then (resp1, tr0)
     else
      (let resp2 = resp1\<lparr>Diagnostics := checkUnknown config (Diagnostics resp1)\<rparr>
       in if HasError (Diagnostics resp2) then (resp2, tr0)
       else
        (let tr1 = tr0 @ [EnvRead ''SNA_HOST'', EnvRead ''SNA_USERNAME'', EnvRead ''SNA_PASSWORD''];
             (host, username, password) = mergeEnv env config;
             resp3 = resp2\<lparr>Diagnostics := checkMissing host username password (Diagnostics resp2)\<rparr>
         in if HasError (Diagnostics resp3) then (resp3, tr1)
         else
          (let tr2 = tr1 @ [LogDebug ''Creating Secure Network Analytics client'',
                            ClientNew host username password]
           in case NewClient host username password of
                Inl err \<Rightarrow>
                  (resp3\<lparr>Diagnostics := addClientError (Diagnostics resp3) err\<rparr>, tr2)
              | Inr client \<Rightarrow>
                  (resp3\<lparr>DataSourceData := Some client, ResourceData := Some client\<rparr>,
                   tr2 @ [LogInfo ''Configured Secure Network Analytics client''])))))"

text \<open>The response that the framework's server hands to \<open>Configure\<close>: the zero value.\<close>

definition newResponse :: "'c ConfigureResponse" where
  "newResponse = \<lparr>Diagnostics = [], DataSourceData = None, ResourceData = None\<rparr>"

section \<open>Names for the fields, the phases and the diagnostics\<close>

text \<open>
  The three attributes, with the variable of the environment that stands in for each,
  the explicit value of each in the decoded model and the merged value of each.
\<close>

datatype field = FHost | FUsername | FPassword

definition allFields :: "field list" where
  "allFields = [FHost, FUsername, FPassword]"

fun attrName :: "field \<Rightarrow> string" where
  "attrName FHost = ''host''"
| "attrName FUsername = ''username''"
| "attrName FPassword = ''password''"

fun envName :: "field \<Rightarrow> string" where
  "envName FHost = ''SNA_HOST''"
| "envName FUsername = ''SNA_USERNAME''"
| "envName FPassword = ''SNA_PASSWORD''"

fun explicit :: "field \<Rightarrow> snaProviderModel \<Rightarrow> types_String" where
  "explicit FHost config = Host config"
| "explicit FUsername config = Username config"
| "explicit FPassword config = Password config"

fun merged :: "field \<Rightarrow> string \<times> string \<times> string \<Rightarrow> string" where
  "merged FHost (host, username, password) = host"
| "merged FUsername (host, username, password) = username"
| "merged FPassword (host, username, password) = password"

text \<open>The diagnostics that lines 87-92, 96-101 and 105-110 add for an unknown value.\<close>

fun unknownValueError :: "field \<Rightarrow> Diagnostic" where
  "unknownValueError FHost =
     \<lparr>fieldPath = Some ''host'', severity = SeverityError,
      summary = ''Unknown Secure Network Analytics API Host'',
      detail = ''The provider cannot create the Secure Network Analytics API client as there is an unknown configuration value for the Secure Network Analytics API host. Either target apply the source of the value first, set the value statically in the configuration, or use the SNA_HOST environment variable.''\<rparr>"
| "unknownValueError FUsername =
     \<lparr>fieldPath = Some ''username'', severity = SeverityError,
      summary = ''Unknown Secure Network Analytics API Username'',
      detail = ''The provider cannot create the Secure Network Analytics API client as there is an unknown configuration value for the Secure Network Analytics API username. Either target apply the source of the value first, set the value statically in the configuration, or use the SNA_USERNAME environment variable.''\<rparr>"
| "unknownValueError FPassword =
     \<lparr>fieldPath = Some ''password'', severity = SeverityError,
      summary = ''Unknown Secure Network Analytics API Password'',
      detail = ''The provider cannot create the Secure Network Analytics API client as there is an unknown configuration value for the Secure Network Analytics API password. Either target apply the source of the value first, set the value statically in the configuration, or use the SNA_PASSWORD environment variable.''\<rparr>"

text \<open>The diagnostics that lines 140-146, 150-156 and 160-166 add for an empty merged value.\<close>

fun missingValueError :: "field \<Rightarrow> Diagnostic" where
  "missingValueError FHost =
     \<lparr>fieldPath = Some ''host'', severity = SeverityError,
      summary = ''Missing Secure Network Analytics API Host'',
      detail = ''The provider cannot create the Secure Network Analytics API client as there is a missing or empty value for the Secure Network Analytics API host. Set the host value in the configuration or use the SNA_HOST environment variable. If either is already set, ensure the value is not empty.''\<rparr>"
| "missingValueError FUsername =
     \<lparr>fieldPath = Some ''username'', severity = SeverityError,
      summary = ''Missing Secure Network Analytics API Username'',
      detail = ''The provider cannot create the Secure Network Analytics API client as there is a missing or empty value for the Secure Network Analytics API username. Set the username value in the configuration or use the SNA_USERNAME environment variable. If either is already set, ensure the value is not empty.''\<rparr>"
| "missingValueError FPassword =
     \<lparr>fieldPath = Some ''password'', severity = SeverityError,
      summary = ''Missing Secure Network Analytics API Password'',
      detail = ''The provider cannot create the Secure Network Analytics API client as there is a missing or empty value for the Secure Network Analytics API password. Set the password value in the configuration or use the SNA_PASSWORD environment variable. If either is already set, ensure the value is not empty.''\<rparr>"

text \<open>The diagnostic that lines 183-188 add when the constructor fails with text \<open>err\<close>.\<close>

definition constructionSummary :: string where
  "constructionSummary = ''Unable to Create Secure Network Analytics API Client''"

definition constructionPreamble :: string where
  "constructionPreamble =
     ''An unexpected error occurred when creating the Secure Network Analytics API client. If the error is not clear, please contact the provider developers.'' @
     [CHR 0x0A, CHR 0x0A] @ ''Secure Network Analytics Client Error: ''"

definition constructionError :: "string \<Rightarrow> Diagnostic" where
  "constructionError err =
     \<lparr>fieldPath = None, severity = SeverityError,
      summary = constructionSummary, detail = constructionPreamble @ err\<rparr>"

text \<open>
  What the gates look at: the collection after the diagnostics of the configuration read
  were forwarded, the fields whose explicit value is unknown, and the fields whose
  merged value is empty.
\<close>

definition forwarded :: "ConfigureRequest \<Rightarrow> Diagnostics \<Rightarrow> Diagnostics" where
  "forwarded req diags0 = Append diags0 (Config_Get_diags req)"

definition unknownFields :: "snaProviderModel \<Rightarrow> field list" where
  "unknownFields config = filter (\<lambda>f. IsUnknown (explicit f config)) allFields"

definition missingFields :: "environ \<Rightarrow> snaProviderModel \<Rightarrow> field list" where
  "missingFields env config = filter (\<lambda>f. merged f (mergeEnv env config) = []) allFields"

text \<open>The events up to the first gates, up to the third gate, and up to the constructor's call.\<close>

definition traceStart :: "event list" where
  "traceStart = [LogInfo ''Configuring Secure Network Analytics client'']"

definition traceMerged :: "event list" where
  "traceMerged = traceStart @ [EnvRead ''SNA_HOST'', EnvRead ''SNA_USERNAME'', EnvRead ''SNA_PASSWORD'']"

definition traceCalled :: "string \<times> string \<times> string \<Rightarrow> event list" where
  "traceCalled m = traceMerged @
     [LogDebug ''Creating Secure Network Analytics client'',
      ClientNew (merged FHost m) (merged FUsername m) (merged FPassword m)]"

fun isEnvRead :: "event \<Rightarrow> bool" where
  "isEnvRead (EnvRead k) = True"
| "isEnvRead e = False"

fun isClientNew :: "event \<Rightarrow> bool" where
  "isClientNew (ClientNew h u p) = True"
| "isClientNew e = False"

text \<open>
  The diagnostics that \<open>Configure\<close> itself added: what follows the forwarded ones in the
  collection it leaves.
\<close>

definition coreAppended ::
  "environ \<Rightarrow> (string \<Rightarrow> string \<Rightarrow> string \<Rightarrow> string + 'c) \<Rightarrow> ConfigureRequest \<Rightarrow>
     'c ConfigureResponse \<Rightarrow> Diagnostic list" where
  "coreAppended env NewClient req resp0 =
     drop (length (forwarded req (Diagnostics resp0))) (Diagnostics (fst (Configure env NewClient req resp0)))"

subsection \<open>Sample inputs\<close>

text \<open>
  Scenario A: the host given explicitly, the rest from the environment.  Scenario B:
  nothing given.  Scenario C: the host unknown.  A variant of C with the username null.  A constructor that accepts every triple
  and returns it as the client, and one that refuses every triple.
\<close>

definition configA :: snaProviderModel where
  "configA = \<lparr>Host = StringValue ''http://x'', Username = StringNull, Password = StringNull\<rparr>"

definition envA :: environ where
  "envA = [''SNA_USERNAME'' \<mapsto> ''u'', ''SNA_PASSWORD'' \<mapsto> ''p'']"

definition configB :: snaProviderModel where
  "configB = \<lparr>Host = StringNull, Username = StringNull, Password = StringNull\<rparr>"

definition configC :: snaProviderModel where
  "configC = \<lparr>Host = StringUnknown, Username = StringValue ''u'', Password = StringValue ''p''\<rparr>"

definition configUnknownHost :: snaProviderModel where
  "configUnknownHost = \<lparr>Host = StringUnknown, Username = StringNull, Password = StringValue ''p''\<rparr>"

definition request :: "snaProviderModel \<Rightarrow> ConfigureRequest" where
  "request config = \<lparr>Config_Get_diags = [], Config_Get_value = config\<rparr>"

definition acceptAll :: "string \<Rightarrow> string \<Rightarrow> string \<Rightarrow> string + (string \<times> string \<times> string)" where
  "acceptAll host username password = Inr (host, username, password)"

definition refuseAll :: "string \<Rightarrow> string \<Rightarrow> string \<Rightarrow> string + (string \<times> string \<times> string)" where
  "refuseAll host username password = Inl ''connection refused''"

text \<open>
  An explicit empty host beside a host in the environment; a warning that is not the
  provider's own, and a response that already holds it.
\<close>

definition configEmptyHost :: snaProviderModel where
  "configEmptyHost = \<lparr>Host = StringValue [], Username = StringValue ''u'', Password = StringValue ''p''\<rparr>"

definition envHost :: environ where
  "envHost = [''SNA_HOST'' \<mapsto> ''sna.example'']"

definition deprecation :: Diagnostic where
  "deprecation = \<lparr>fieldPath = Some ''host'', severity = SeverityWarning,
                   summary = ''Deprecated'', detail = []\<rparr>"

definition respWarned :: "(string \<times> string \<times> string) ConfigureResponse" where
  "respWarned = \<lparr>Diagnostics = [deprecation], DataSourceData = None, ResourceData = None\<rparr>"

section \<open>The diagnostic collection\<close>

lemma Contains_iff: "Contains ds x = (x \<in> set ds)"
  by (induction ds) auto

lemma HasError_iff: "HasError ds = (\<exists>d\<in>set ds. severity d = SeverityError)"
  by (induction ds) auto

lemma HasError_append: "HasError (xs @ ys) = (HasError xs \<or> HasError ys)"
  by (auto simp: HasError_iff)

lemma Append_single:
  "Append ds [d] = (if d \<in> set ds then ds else ds @ [d])"
  by (simp add: Contains_iff)

lemma set_Append: "set (Append ds ins) = set ds \<union> set ins"
  by (induction ins arbitrary: ds) (auto simp: Contains_iff)

lemma HasError_Append: "HasError (Append ds ins) = (HasError ds \<or> HasError ins)"
  by (auto simp: HasError_iff set_Append)

lemma no_error_not_member:
  "\<not> HasError ds \<Longrightarrow> severity d = SeverityError \<Longrightarrow> d \<notin> set ds"
  by (auto simp: HasError_iff)

lemma severity_unknownValueError [simp]: "severity (unknownValueError f) = SeverityError"
  by (cases f) simp_all

lemma severity_missingValueError [simp]: "severity (missingValueError f) = SeverityError"
  by (cases f) simp_all

lemma fieldPath_unknownValueError [simp]: "fieldPath (unknownValueError f) = Some (attrName f)"
  by (cases f) simp_all

lemma fieldPath_missingValueError [simp]: "fieldPath (missingValueError f) = Some (attrName f)"
  by (cases f) simp_all

lemma attrName_inj: "attrName f = attrName g \<longleftrightarrow> f = g"
  by (cases f; cases g) simp_all

lemma unknownValueError_inj: "unknownValueError f = unknownValueError g \<longleftrightarrow> f = g"
proof
  assume "unknownValueError f = unknownValueError g"
  then have "fieldPath (unknownValueError f) = fieldPath (unknownValueError g)" by simp
  then show "f = g" by (simp add: attrName_inj)
qed simp

lemma missingValueError_inj: "missingValueError f = missingValueError g \<longleftrightarrow> f = g"
proof
  assume "missingValueError f = missingValueError g"
  then have "fieldPath (missingValueError f) = fieldPath (missingValueError g)" by simp
  then show "f = g" by (simp add: attrName_inj)
qed simp

lemma AddAttributeError_unknown:
  "AddAttributeError ds (path_Root ''host'')
              ''Unknown Secure Network Analytics API Host''
              (''The provider cannot create the Secure Network Analytics API client as there is an unknown configuration value for the Secure Network Analytics API host. '' @
               ''Either target apply the source of the value first, set the value statically in the configuration, or use the SNA_HOST environment variable.'')
   = Append ds [unknownValueError FHost]"
  "AddAttributeError ds (path_Root ''username'')
              ''Unknown Secure Network Analytics API Username''
              (''The provider cannot create the Secure Network Analytics API client as there is an unknown configuration value for the Secure Network Analytics API username. '' @
               ''Either target apply the source of the value first, set the value statically in the configuration, or use the SNA_USERNAME environment variable.'')
   = Append ds [unknownValueError FUsername]"
  "AddAttributeError ds (path_Root ''password'')
              ''Unknown Secure Network Analytics API Password''
              (''The provider cannot create the Secure Network Analytics API client as there is an unknown configuration value for the Secure Network Analytics API password. '' @
               ''Either target apply the source of the value first, set the value statically in the configuration, or use the SNA_PASSWORD environment variable.'')
   = Append ds [unknownValueError FPassword]"
  by (simp_all add: AddAttributeError_def path_Root_def NewAttributeErrorDiagnostic_def)

lemma checkUnknown_Append:
  "checkUnknown config ds =
     (let d1 = (if IsUnknown (Host config) then Append ds [unknownValueError FHost] else ds);
          d2 = (if IsUnknown (Username config) then Append d1 [unknownValueError FUsername] else d1)
      in (if IsUnknown (Password config) then Append d2 [unknownValueError FPassword] else d2))"
  unfolding checkUnknown_def AddAttributeError_unknown Let_def by (rule refl)

lemma checkUnknown_eq:
  assumes "\<not> HasError ds"
  shows "checkUnknown config ds = ds @ map unknownValueError (unknownFields config)"
proof -
  have m: "unknownValueError f \<notin> set ds" for f
    using assms by (rule no_error_not_member) simp
  show ?thesis
    unfolding checkUnknown_Append
    by (simp add: Let_def Append_single m unknownValueError_inj unknownFields_def allFields_def del: Append.simps unknownValueError.simps)
qed

lemma AddAttributeError_missing:
  "AddAttributeError ds (path_Root ''host'')
              ''Missing Secure Network Analytics API Host''
              (''The provider cannot create the Secure Network Analytics API client as there is a missing or empty value for the Secure Network Analytics API host. '' @
               ''Set the host value in the configuration or use the SNA_HOST environment variable. '' @
               ''If either is already set, ensure the value is not empty.'')
   = Append ds [missingValueError FHost]"
  "AddAttributeError ds (path_Root ''username'')
              ''Missing Secure Network Analytics API Username''
              (''The provider cannot create the Secure Network Analytics API client as there is a missing or empty value for the Secure Network Analytics API username. '' @
               ''Set the username value in the configuration or use the SNA_USERNAME environment variable. '' @
               ''If either is already set, ensure the value is not empty.'')
   = Append ds [missingValueError FUsername]"
  "AddAttributeError ds (path_Root ''password'')
              ''Missing Secure Network Analytics API Password''
              (''The provider cannot create the Secure Network Analytics API client as there is a missing or empty value for the Secure Network Analytics API password. '' @
               ''Set the password value in the configuration or use the SNA_PASSWORD environment variable. '' @
               ''If either is already set, ensure the value is not empty.'')
   = Append ds [missingValueError FPassword]"
  by (simp_all add: AddAttributeError_def path_Root_def NewAttributeErrorDiagnostic_def)

lemma checkMissing_Append:
  "checkMissing h u p ds =
     (let d1 = (if h = [] then Append ds [missingValueError FHost] else ds);
          d2 = (if u = [] then Append d1 [missingValueError FUsername] else d1)
      in (if p = [] then Append d2 [missingValueError FPassword] else d2))"
  unfolding checkMissing_def AddAttributeError_missing Let_def by (rule refl)

lemma checkMissing_eq:
  assumes "\<not> HasError ds"
  shows "checkMissing h u p ds =
           ds @ map missingValueError (filter (\<lambda>f. merged f (h, u, p) = []) allFields)"
proof -
  have m: "missingValueError f \<notin> set ds" for f
    using assms by (rule no_error_not_member) simp
  show ?thesis
    unfolding checkMissing_Append
    by (simp add: Let_def Append_single m missingValueError_inj allFields_def
          del: Append.simps missingValueError.simps)
qed

lemma addClientError_Append: "addClientError ds err = Append ds [constructionError err]"
  by (simp add: addClientError_def AddError_def NewErrorDiagnostic_def constructionError_def
        constructionSummary_def constructionPreamble_def)

lemma severity_constructionError [simp]: "severity (constructionError err) = SeverityError"
  by (simp add: constructionError_def)

lemma addClientError_eq:
  "\<not> HasError ds \<Longrightarrow> addClientError ds err = ds @ [constructionError err]"
  by (simp add: addClientError_Append Append_single no_error_not_member del: Append.simps)

lemma HasError_map_unknown: "HasError (map unknownValueError fs) = (fs \<noteq> [])"
  by (cases fs) simp_all

lemma HasError_map_missing: "HasError (map missingValueError fs) = (fs \<noteq> [])"
  by (cases fs) simp_all

lemma Configure_read_failed:
  assumes "HasError (forwarded req (Diagnostics resp0))"
  shows "Configure env NewClient req resp0 =
           (resp0\<lparr>Diagnostics := forwarded req (Diagnostics resp0)\<rparr>, traceStart)"
  using assms by (simp add: Configure_def forwarded_def traceStart_def Let_def)

lemma Configure_unknown:
  assumes "\<not> HasError (forwarded req (Diagnostics resp0))" and "unknownFields (Config_Get_value req) \<noteq> []"
  shows "Configure env NewClient req resp0 =
           (resp0\<lparr>Diagnostics := forwarded req (Diagnostics resp0) @
                     map unknownValueError (unknownFields (Config_Get_value req))\<rparr>, traceStart)"
  using assms
  by (simp add: Configure_def forwarded_def traceStart_def Let_def checkUnknown_eq
        HasError_append HasError_map_unknown)

lemma Configure_missing:
  assumes "\<not> HasError (forwarded req (Diagnostics resp0))" and "unknownFields (Config_Get_value req) = []"
    and "missingFields env (Config_Get_value req) \<noteq> []"
  shows "Configure env NewClient req resp0 =
           (resp0\<lparr>Diagnostics := forwarded req (Diagnostics resp0) @
                     map missingValueError (missingFields env (Config_Get_value req))\<rparr>, traceMerged)"
proof -
  obtain h u p where m: "mergeEnv env (Config_Get_value req) = (h, u, p)"
    by (cases "mergeEnv env (Config_Get_value req)")
  from assms show ?thesis
    by (simp add: Configure_def forwarded_def traceStart_def traceMerged_def Let_def checkUnknown_eq
        checkMissing_eq HasError_append HasError_map_missing missingFields_def m)
qed

lemma Configure_construct:
  assumes "\<not> HasError (forwarded req (Diagnostics resp0))" and "unknownFields (Config_Get_value req) = []"
    and "missingFields env (Config_Get_value req) = []"
  shows "Configure env NewClient req resp0 =
          (let m = mergeEnv env (Config_Get_value req) in
           case NewClient (merged FHost m) (merged FUsername m) (merged FPassword m) of
             Inl err \<Rightarrow> (resp0\<lparr>Diagnostics := forwarded req (Diagnostics resp0) @ [constructionError err]\<rparr>,
                          traceCalled m)
           | Inr client \<Rightarrow> (resp0\<lparr>Diagnostics := forwarded req (Diagnostics resp0),
                                  DataSourceData := Some client, ResourceData := Some client\<rparr>,
                             traceCalled m @ [LogInfo ''Configured Secure Network Analytics client'']))"
proof -
  obtain h u p where m: "mergeEnv env (Config_Get_value req) = (h, u, p)"
    by (cases "mergeEnv env (Config_Get_value req)")
  from assms show ?thesis
    by (simp add: Configure_def forwarded_def traceStart_def traceMerged_def traceCalled_def Let_def
        checkUnknown_eq checkMissing_eq addClientError_eq HasError_append HasError_map_missing
        missingFields_def m split: sum.split)
qed

section \<open>The outcome of Configure on a new response\<close>

lemma unknownFields_Nil_iff:
  "unknownFields c = [] \<longleftrightarrow>
     \<not> IsUnknown (Host c) \<and> \<not> IsUnknown (Username c) \<and> \<not> IsUnknown (Password c)"
  by (simp add: unknownFields_def allFields_def)

lemma unknownFields_Nil_iff_all: "unknownFields c = [] \<longleftrightarrow> (\<forall>f. \<not> IsUnknown (explicit f c))"
proof -
  have "(\<forall>f. \<not> IsUnknown (explicit f c)) \<longleftrightarrow>
      \<not> IsUnknown (Host c) \<and> \<not> IsUnknown (Username c) \<and> \<not> IsUnknown (Password c)"
    (is "?L \<longleftrightarrow> ?R")
  proof
    assume ?L
    from this [rule_format, of FHost] this [rule_format, of FUsername] this [rule_format, of FPassword]
    show ?R by simp
  next
    assume r: ?R
    show ?L
    proof
      fix f from r show "\<not> IsUnknown (explicit f c)" by (cases f) simp_all
    qed
  qed
  then show ?thesis by (simp add: unknownFields_Nil_iff)
qed

lemma missingFields_Nil_iff:
  "missingFields env c = [] \<longleftrightarrow>
     merged FHost (mergeEnv env c) \<noteq> [] \<and> merged FUsername (mergeEnv env c) \<noteq> [] \<and>
     merged FPassword (mergeEnv env c) \<noteq> []"
  by (simp add: missingFields_def allFields_def)

lemma set_missingFields: "f \<in> set (missingFields env c) \<longleftrightarrow> merged f (mergeEnv env c) = []"
  by (cases f) (simp_all add: missingFields_def allFields_def)

lemma HasError_forwarded:
  "HasError (forwarded req ds) = (HasError ds \<or> HasError (Config_Get_diags req))"
  by (simp add: forwarded_def HasError_Append)

lemma Diagnostics_newResponse: "Diagnostics newResponse = []"
  by (simp add: newResponse_def)

lemma newResponse_Diagnostics:
  "newResponse\<lparr>Diagnostics := ds\<rparr> = \<lparr>Diagnostics = ds, DataSourceData = None, ResourceData = None\<rparr>"
  by (simp add: newResponse_def)

lemma unknown_neq_missing: "unknownValueError f \<noteq> missingValueError g"
proof
  assume "unknownValueError f = missingValueError g"
  then have "hd (summary (unknownValueError f)) = hd (summary (missingValueError g))" by simp
  then show False by (cases f; cases g) simp_all
qed

lemma missing_neq_unknown: "missingValueError g \<noteq> unknownValueError f"
  using unknown_neq_missing [of f g] by (rule not_sym)

lemma construction_neq_missing: "constructionError e \<noteq> missingValueError f"
proof
  assume "constructionError e = missingValueError f"
  then have "fieldPath (constructionError e) = fieldPath (missingValueError f)" by simp
  then show False by (simp add: constructionError_def)
qed

lemma count_list_no_error:
  "\<not> HasError ds \<Longrightarrow> severity d = SeverityError \<Longrightarrow> count_list ds d = 0"
  by (simp add: no_error_not_member)

lemma count_unknown_sel:
  "count_list (map unknownValueError (filter P allFields)) (unknownValueError f) = (if P f then 1 else 0)"
  by (cases f) (simp_all add: allFields_def unknownValueError_inj del: unknownValueError.simps)

lemma count_missing_sel:
  "count_list (map missingValueError (filter P allFields)) (missingValueError f) = (if P f then 1 else 0)"
  by (cases f) (simp_all add: allFields_def missingValueError_inj del: missingValueError.simps)

lemma count_unknownFields:
  "count_list (map unknownValueError (unknownFields c)) (unknownValueError f) =
     (if IsUnknown (explicit f c) then 1 else 0)"
  unfolding unknownFields_def by (rule count_unknown_sel)

lemma count_missingFields:
  "count_list (map missingValueError (missingFields env c)) (missingValueError f) =
     (if merged f (mergeEnv env c) = [] then 1 else 0)"
  unfolding missingFields_def by (rule count_missing_sel)

lemma traceStart_quiet: "\<not> list_ex isEnvRead traceStart" "\<not> list_ex isClientNew traceStart"
  by (simp_all add: traceStart_def)

lemma Configure_new_read_failed:
  assumes "HasError (Config_Get_diags req)"
  shows "Configure env NewClient req newResponse =
           (\<lparr>Diagnostics = forwarded req [], DataSourceData = None, ResourceData = None\<rparr>,
            traceStart)"
  using assms Configure_read_failed [where req = req and ?resp0.0 = newResponse]
  by (simp add: HasError_forwarded Diagnostics_newResponse newResponse_Diagnostics)

lemma Configure_new_unknown:
  assumes "\<not> HasError (Config_Get_diags req)" and "unknownFields (Config_Get_value req) \<noteq> []"
  shows "Configure env NewClient req newResponse =
           (\<lparr>Diagnostics = forwarded req [] @
                            map unknownValueError (unknownFields (Config_Get_value req)),
             DataSourceData = None, ResourceData = None\<rparr>, traceStart)"
  using assms Configure_unknown [where req = req and ?resp0.0 = newResponse]
  by (simp add: HasError_forwarded Diagnostics_newResponse newResponse_Diagnostics)

lemma Configure_new_missing:
  assumes "\<not> HasError (Config_Get_diags req)" and "unknownFields (Config_Get_value req) = []"
    and "missingFields env (Config_Get_value req) \<noteq> []"
  shows "Configure env NewClient req newResponse =
           (\<lparr>Diagnostics = forwarded req [] @
                            map missingValueError (missingFields env (Config_Get_value req)),
             DataSourceData = None, ResourceData = None\<rparr>, traceMerged)"
  using assms Configure_missing [where req = req and ?resp0.0 = newResponse]
  by (simp add: HasError_forwarded Diagnostics_newResponse newResponse_Diagnostics)

lemma Configure_new_refused:
  assumes "\<not> HasError (Config_Get_diags req)" and "unknownFields (Config_Get_value req) = []"
    and "missingFields env (Config_Get_value req) = []"
    and "NewClient (merged FHost (mergeEnv env (Config_Get_value req)))
           (merged FUsername (mergeEnv env (Config_Get_value req)))
           (merged FPassword (mergeEnv env (Config_Get_value req))) = Inl err"
  shows "Configure env NewClient req newResponse =
           (\<lparr>Diagnostics = forwarded req [] @ [constructionError err],
             DataSourceData = None, ResourceData = None\<rparr>,
            traceCalled (mergeEnv env (Config_Get_value req)))"
  using assms Configure_construct [where req = req and ?resp0.0 = newResponse and env = env
      and NewClient = NewClient]
  by (simp add: HasError_forwarded Diagnostics_newResponse newResponse_Diagnostics Let_def)

lemma Configure_new_built:
  assumes "\<not> HasError (Config_Get_diags req)" and "unknownFields (Config_Get_value req) = []"
    and "missingFields env (Config_Get_value req) = []"
    and "NewClient (merged FHost (mergeEnv env (Config_Get_value req)))
           (merged FUsername (mergeEnv env (Config_Get_value req)))
           (merged FPassword (mergeEnv env (Config_Get_value req))) = Inr client"
  shows "Configure env NewClient req newResponse =
           (\<lparr>Diagnostics = forwarded req [],
             DataSourceData = Some client, ResourceData = Some client\<rparr>,
            traceCalled (mergeEnv env (Config_Get_value req)) @
              [LogInfo ''Configured Secure Network Analytics client''])"
  using assms Configure_construct [where req = req and ?resp0.0 = newResponse and env = env
      and NewClient = NewClient]
  by (simp add: HasError_forwarded Diagnostics_newResponse newResponse_def Let_def)

lemma traceCalled_events:
  "length (filter isClientNew (traceCalled m)) = 1"
  "length (filter isClientNew (traceCalled m @ [LogInfo s])) = 1"
  "\<not> list_ex isClientNew traceMerged"
  "list_ex isEnvRead traceMerged"
  by (simp_all add: traceCalled_def traceMerged_def traceStart_def)

lemma Configure_outcomes:
  fixes NewClient :: "string \<Rightarrow> string \<Rightarrow> string \<Rightarrow> string + 'c"
  obtains
    (read_failed) "HasError (forwarded req (Diagnostics resp0))"
      "Configure env NewClient req resp0 =
         (resp0\<lparr>Diagnostics := forwarded req (Diagnostics resp0)\<rparr>, traceStart)"
  | (unknown) "\<not> HasError (forwarded req (Diagnostics resp0))"
      "unknownFields (Config_Get_value req) \<noteq> []"
      "Configure env NewClient req resp0 =
         (resp0\<lparr>Diagnostics := forwarded req (Diagnostics resp0) @
             map unknownValueError (unknownFields (Config_Get_value req))\<rparr>, traceStart)"
  | (missing) "\<not> HasError (forwarded req (Diagnostics resp0))"
      "unknownFields (Config_Get_value req) = []"
      "missingFields env (Config_Get_value req) \<noteq> []"
      "Configure env NewClient req resp0 =
         (resp0\<lparr>Diagnostics := forwarded req (Diagnostics resp0) @
             map missingValueError (missingFields env (Config_Get_value req))\<rparr>, traceMerged)"
  | (refused) err where "\<not> HasError (forwarded req (Diagnostics resp0))"
      "unknownFields (Config_Get_value req) = []"
      "missingFields env (Config_Get_value req) = []"
      "NewClient (merged FHost (mergeEnv env (Config_Get_value req)))
         (merged FUsername (mergeEnv env (Config_Get_value req)))
         (merged FPassword (mergeEnv env (Config_Get_value req))) = Inl err"
      "Configure env NewClient req resp0 =
         (resp0\<lparr>Diagnostics := forwarded req (Diagnostics resp0) @ [constructionError err]\<rparr>,
          traceCalled (mergeEnv env (Config_Get_value req)))"
  | (built) client where "\<not> HasError (forwarded req (Diagnostics resp0))"
      "unknownFields (Config_Get_value req) = []"
      "missingFields env (Config_Get_value req) = []"
      "NewClient (merged FHost (mergeEnv env (Config_Get_value req)))
         (merged FUsername (mergeEnv env (Config_Get_value req)))
         (merged FPassword (mergeEnv env (Config_Get_value req))) = Inr client"
      "Configure env NewClient req resp0 =
         (resp0\<lparr>Diagnostics := forwarded req (Diagnostics resp0),
                 DataSourceData := Some client, ResourceData := Some client\<rparr>,
          traceCalled (mergeEnv env (Config_Get_value req)) @
            [LogInfo ''Configured Secure Network Analytics client''])"
proof (cases "HasError (forwarded req (Diagnostics resp0))")
  case True
  then show ?thesis using Configure_read_failed read_failed by blast
next
  case fw: False
  show ?thesis
  proof (cases "unknownFields (Config_Get_value req) = []")
    case False
    with fw show ?thesis using Configure_unknown unknown by blast
  next
    case uk: True
    show ?thesis
    proof (cases "missingFields env (Config_Get_value req) = []")
      case False
      with fw uk show ?thesis using Configure_missing missing by blast
    next
      case ms: True
      note c = Configure_construct [OF fw uk ms, of NewClient]
      show ?thesis
      proof (cases "NewClient (merged FHost (mergeEnv env (Config_Get_value req)))
         (merged FUsername (mergeEnv env (Config_Get_value req)))
         (merged FPassword (mergeEnv env (Config_Get_value req)))")
        case (Inl err)
        with c have "Configure env NewClient req resp0 =
         (resp0\<lparr>Diagnostics := forwarded req (Diagnostics resp0) @ [constructionError err]\<rparr>,
          traceCalled (mergeEnv env (Config_Get_value req)))"
          by (simp add: Let_def)
        with fw uk ms Inl show ?thesis by (rule refused)
      next
        case (Inr client)
        with c have "Configure env NewClient req resp0 =
         (resp0\<lparr>Diagnostics := forwarded req (Diagnostics resp0),
                 DataSourceData := Some client, ResourceData := Some client\<rparr>,
          traceCalled (mergeEnv env (Config_Get_value req)) @
            [LogInfo ''Configured Secure Network Analytics client''])"
          by (simp add: Let_def)
        with fw uk ms Inr show ?thesis by (rule built)
      qed
    qed
  qed
qed

lemma merged_mergeEnv_field:
  "merged f (mergeEnv env config) =
     (if \<not> IsNull (explicit f config) then ValueString (explicit f config)
      else Getenv env (envName f))"
  by (cases f) (simp_all add: mergeEnv_def)

lemma missingFields_empty_merged:
  "missingFields env c = [] \<Longrightarrow> merged f (mergeEnv env c) \<noteq> []"
  using set_missingFields [of f env c] by auto

lemma checkUnknown_general:
  "checkUnknown config ds =
     ds @ map unknownValueError
            (filter (\<lambda>f. IsUnknown (explicit f config) \<and> unknownValueError f \<notin> set ds) allFields)"
  unfolding checkUnknown_Append
  by (simp add: Let_def Append_single unknownValueError_inj allFields_def
        del: Append.simps unknownValueError.simps)

lemma Configure_new_fails_missing:
  fixes NewClient :: "string \<Rightarrow> string \<Rightarrow> string \<Rightarrow> string + 'c"
  assumes "merged f (mergeEnv env (Config_Get_value req)) = []"
  shows "HasError (Diagnostics (fst (Configure env NewClient req newResponse)))
       \<and> DataSourceData (fst (Configure env NewClient req newResponse)) = None
       \<and> ResourceData (fst (Configure env NewClient req newResponse)) = None"
proof -
  from assms have ms: "missingFields env (Config_Get_value req) \<noteq> []"
    using set_missingFields [of f env "Config_Get_value req"] by auto
  show ?thesis
  proof (cases "HasError (Config_Get_diags req)")
    case True
    from Configure_new_read_failed [where NewClient = NewClient, OF True] True
    show ?thesis by (simp add: HasError_forwarded)
  next
    case rd: False
    show ?thesis
    proof (cases "unknownFields (Config_Get_value req) = []")
      case False
      from Configure_new_unknown [where NewClient = NewClient, OF rd False] False
      show ?thesis by (simp add: HasError_append HasError_map_unknown)
    next
      case True
      from Configure_new_missing [where NewClient = NewClient, OF rd True ms] ms
      show ?thesis by (simp add: HasError_append HasError_map_missing)
    qed
  qed
qed

lemma Configure_new_count_missing:
  fixes NewClient :: "string \<Rightarrow> string \<Rightarrow> string \<Rightarrow> string + 'c"
  assumes "\<not> HasError (Config_Get_diags req)"
    and "unknownFields (Config_Get_value req) = []"
  shows "count_list (Diagnostics (fst (Configure env NewClient req newResponse)))
           (missingValueError f) =
         (if merged f (mergeEnv env (Config_Get_value req)) = [] then 1 else 0)"
proof -
  let ?c = "Config_Get_value req"
  have fw: "\<not> HasError (forwarded req [])"
    using assms(1) by (simp add: HasError_forwarded)
  have fw0: "count_list (forwarded req []) (missingValueError f) = 0"
    using fw by (rule count_list_no_error) simp
  show ?thesis
  proof (cases "missingFields env ?c = []")
    case False
    from Configure_new_missing [where NewClient = NewClient, OF assms False]
    show ?thesis by (simp add: fw0 count_missingFields)
  next
    case ms: True
    then have ne: "merged f (mergeEnv env ?c) \<noteq> []" by (rule missingFields_empty_merged)
    show ?thesis
    proof (cases "NewClient (merged FHost (mergeEnv env ?c)) (merged FUsername (mergeEnv env ?c))
                    (merged FPassword (mergeEnv env ?c))")
      case (Inl err)
      from Configure_new_refused [where NewClient = NewClient, OF assms ms Inl] ne
      show ?thesis by (simp add: fw0 construction_neq_missing)
    next
      case (Inr client)
      from Configure_new_built [where NewClient = NewClient, OF assms ms Inr] ne
      show ?thesis by (simp add: fw0)
    qed
  qed
qed

lemma filter_traceCalled:
  "filter isClientNew (traceCalled m) =
     [ClientNew (merged FHost m) (merged FUsername m) (merged FPassword m)]"
  "filter isClientNew (traceCalled m @ [LogInfo s]) =
     [ClientNew (merged FHost m) (merged FUsername m) (merged FPassword m)]"
  "filter isClientNew traceMerged = []"
  "filter isClientNew traceStart = []"
  by (simp_all add: traceCalled_def traceMerged_def traceStart_def)

lemma Configure_new_calls:
  fixes NewClient :: "string \<Rightarrow> string \<Rightarrow> string \<Rightarrow> string + 'c"
  assumes "\<not> HasError (Config_Get_diags req)"
    and "unknownFields (Config_Get_value req) = []"
  shows "filter isClientNew (snd (Configure env NewClient req newResponse)) =
           (if missingFields env (Config_Get_value req) = []
            then [ClientNew (merged FHost (mergeEnv env (Config_Get_value req)))
                    (merged FUsername (mergeEnv env (Config_Get_value req)))
                    (merged FPassword (mergeEnv env (Config_Get_value req)))]
            else [])"
proof (cases "missingFields env (Config_Get_value req) = []")
  case False
  from Configure_new_missing [where NewClient = NewClient, OF assms False] False
  show ?thesis by (simp add: filter_traceCalled)
next
  case ms: True
  let ?c = "Config_Get_value req"
  show ?thesis
  proof (cases "NewClient (merged FHost (mergeEnv env ?c)) (merged FUsername (mergeEnv env ?c))
                  (merged FPassword (mergeEnv env ?c))")
    case (Inl err)
    from Configure_new_refused [where NewClient = NewClient, OF assms ms Inl] ms
    show ?thesis by (simp add: filter_traceCalled)
  next
    case (Inr client)
    from Configure_new_built [where NewClient = NewClient, OF assms ms Inr] ms
    show ?thesis by (simp add: filter_traceCalled)
  qed
qed

lemma Configure_new_no_call_missing:
  fixes NewClient :: "string \<Rightarrow> string \<Rightarrow> string \<Rightarrow> string + 'c"
  assumes "merged f (mergeEnv env (Config_Get_value req)) = []"
  shows "\<not> list_ex isClientNew (snd (Configure env NewClient req newResponse))"
proof -
  from assms have ms: "missingFields env (Config_Get_value req) \<noteq> []"
    using set_missingFields [of f env "Config_Get_value req"] by auto
  show ?thesis
  proof (cases "HasError (Config_Get_diags req)")
    case True
    from Configure_new_read_failed [where NewClient = NewClient, OF True]
    show ?thesis by (simp add: traceStart_quiet)
  next
    case rd: False
    show ?thesis
    proof (cases "unknownFields (Config_Get_value req) = []")
      case False
      from Configure_new_unknown [where NewClient = NewClient, OF rd False]
      show ?thesis by (simp add: traceStart_quiet)
    next
      case True
      from Configure_new_missing [where NewClient = NewClient, OF rd True ms]
      show ?thesis by (simp add: traceCalled_events)
    qed
  qed
qed

lemma mergeEnv_env_update:
  assumes "\<not> IsNull (explicit f config)"
  shows "mergeEnv (env(envName f := x)) config = mergeEnv env config"
  using assms by (cases f) (simp_all add: mergeEnv_def Getenv_def)

lemma Configure_cong_mergeEnv:
  fixes NewClient :: "string \<Rightarrow> string \<Rightarrow> string \<Rightarrow> string + 'c"
  assumes "mergeEnv env1 (Config_Get_value req) = mergeEnv env2 (Config_Get_value req)"
  shows "Configure env1 NewClient req resp0 = Configure env2 NewClient req resp0"
  by (simp only: Configure_def Let_def assms)

section \<open>The sample inputs, evaluated\<close>

lemma scenarioA_built:
  "Configure envA acceptAll (request configA) newResponse =
     (\<lparr>Diagnostics = [], DataSourceData = Some (''http://x'', ''u'', ''p''),
       ResourceData = Some (''http://x'', ''u'', ''p'')\<rparr>,
      traceCalled (''http://x'', ''u'', ''p'') @
        [LogInfo ''Configured Secure Network Analytics client''])"
proof -
  have m: "mergeEnv envA configA = (''http://x'', ''u'', ''p'')"
    by (simp add: mergeEnv_def envA_def configA_def Getenv_def)
  have "Configure envA acceptAll (request configA) newResponse =
     (\<lparr>Diagnostics = forwarded (request configA) [],
       DataSourceData = Some (''http://x'', ''u'', ''p''),
       ResourceData = Some (''http://x'', ''u'', ''p'')\<rparr>,
      traceCalled (mergeEnv envA (Config_Get_value (request configA))) @
        [LogInfo ''Configured Secure Network Analytics client''])"
    by (rule Configure_new_built)
      (simp_all add: request_def unknownFields_def missingFields_def allFields_def m acceptAll_def,
        simp add: configA_def)
  then show ?thesis by (simp add: request_def forwarded_def m)
qed

lemma scenarioA_refused:
  "Configure envA refuseAll (request configA) newResponse =
     (\<lparr>Diagnostics = [constructionError ''connection refused''],
       DataSourceData = None, ResourceData = None\<rparr>,
      traceCalled (''http://x'', ''u'', ''p''))"
proof -
  have m: "mergeEnv envA configA = (''http://x'', ''u'', ''p'')"
    by (simp add: mergeEnv_def envA_def configA_def Getenv_def)
  have "Configure envA refuseAll (request configA) newResponse =
     (\<lparr>Diagnostics = forwarded (request configA) [] @ [constructionError ''connection refused''],
       DataSourceData = None, ResourceData = None\<rparr>,
      traceCalled (mergeEnv envA (Config_Get_value (request configA))))"
    by (rule Configure_new_refused)
      (simp_all add: request_def unknownFields_def missingFields_def allFields_def m refuseAll_def,
        simp add: configA_def)
  then show ?thesis by (simp add: request_def forwarded_def m)
qed

lemma scenarioA_warned:
  "Configure envA acceptAll (request configA) respWarned =
     (\<lparr>Diagnostics = [deprecation], DataSourceData = Some (''http://x'', ''u'', ''p''),
       ResourceData = Some (''http://x'', ''u'', ''p'')\<rparr>,
      traceCalled (''http://x'', ''u'', ''p'') @
        [LogInfo ''Configured Secure Network Analytics client''])"
proof -
  have m: "mergeEnv envA configA = (''http://x'', ''u'', ''p'')"
    by (simp add: mergeEnv_def envA_def configA_def Getenv_def)
  have "Configure envA acceptAll (request configA) respWarned =
          (let m = mergeEnv envA (Config_Get_value (request configA)) in
           case acceptAll (merged FHost m) (merged FUsername m) (merged FPassword m) of
             Inl err \<Rightarrow> (respWarned\<lparr>Diagnostics := forwarded (request configA) (Diagnostics respWarned) @ [constructionError err]\<rparr>,
                          traceCalled m)
           | Inr client \<Rightarrow> (respWarned\<lparr>Diagnostics := forwarded (request configA) (Diagnostics respWarned),
                                  DataSourceData := Some client, ResourceData := Some client\<rparr>,
                             traceCalled m @ [LogInfo ''Configured Secure Network Analytics client'']))"
    by (rule Configure_construct)
      (simp_all add: request_def unknownFields_def missingFields_def allFields_def m
        forwarded_def respWarned_def deprecation_def, simp add: configA_def)
  then show ?thesis
    by (simp add: request_def forwarded_def m acceptAll_def respWarned_def Let_def)
qed

lemma scenarioB_missing:
  "Configure Map.empty NewClient (request configB) newResponse =
     (\<lparr>Diagnostics = [missingValueError FHost, missingValueError FUsername,
                       missingValueError FPassword],
       DataSourceData = None, ResourceData = None\<rparr>, traceMerged)"
proof -
  have m: "mergeEnv Map.empty configB = ([], [], [])"
    by (simp add: mergeEnv_def configB_def Getenv_def)
  have "Configure Map.empty NewClient (request configB) newResponse =
     (\<lparr>Diagnostics = forwarded (request configB) [] @
          map missingValueError (missingFields Map.empty (Config_Get_value (request configB))),
       DataSourceData = None, ResourceData = None\<rparr>, traceMerged)"
    by (rule Configure_new_missing)
      (simp_all add: request_def unknownFields_def missingFields_def allFields_def m,
        simp add: configB_def)
  then show ?thesis
    by (simp add: request_def forwarded_def missingFields_def allFields_def m
          del: missingValueError.simps)
qed

lemma emptyHost_missing:
  "Configure envHost NewClient (request configEmptyHost) newResponse =
     (\<lparr>Diagnostics = [missingValueError FHost],
       DataSourceData = None, ResourceData = None\<rparr>, traceMerged)"
proof -
  have m: "mergeEnv envHost configEmptyHost = ([], ''u'', ''p'')"
    by (simp add: mergeEnv_def configEmptyHost_def envHost_def Getenv_def)
  have "Configure envHost NewClient (request configEmptyHost) newResponse =
     (\<lparr>Diagnostics = forwarded (request configEmptyHost) [] @
          map missingValueError (missingFields envHost (Config_Get_value (request configEmptyHost))),
       DataSourceData = None, ResourceData = None\<rparr>, traceMerged)"
    by (rule Configure_new_missing)
      (simp_all add: request_def unknownFields_def missingFields_def allFields_def m,
        simp add: configEmptyHost_def)
  then show ?thesis
    by (simp add: request_def forwarded_def missingFields_def allFields_def m
          del: missingValueError.simps)
qed

lemma unknownHost_stops:
  "Configure Map.empty NewClient (request configUnknownHost) newResponse =
     (\<lparr>Diagnostics = [unknownValueError FHost],
       DataSourceData = None, ResourceData = None\<rparr>, traceStart)"
proof -
  have "Configure Map.empty NewClient (request configUnknownHost) newResponse =
     (\<lparr>Diagnostics = forwarded (request configUnknownHost) [] @
          map unknownValueError (unknownFields (Config_Get_value (request configUnknownHost))),
       DataSourceData = None, ResourceData = None\<rparr>, traceStart)"
    by (rule Configure_new_unknown)
      (simp_all add: request_def unknownFields_def allFields_def configUnknownHost_def)
  then show ?thesis
    by (simp add: request_def forwarded_def unknownFields_def allFields_def configUnknownHost_def
          del: unknownValueError.simps)
qed

section \<open>Properties of the resolution\<close>

text \<open>
  Claim C1 (all or nothing).  For every environment, client constructor and request,
  \<open>Configure\<close> on a new response ends in exactly one of two ways.  Either the
  collection holds no error, the constructor accepted the merged host, username and
  password, all three non-empty, and both slots hold the client it returned; or the
  collection holds an error and both slots are empty.
\<close>

theorem all_or_nothing:
  fixes NewClient :: "string \<Rightarrow> string \<Rightarrow> string \<Rightarrow> string + 'c"
  shows "let resp = fst (Configure env NewClient req newResponse);
             m = mergeEnv env (Config_Get_value req)
         in (\<not> HasError (Diagnostics resp)
              \<and> (\<exists>client. NewClient (merged FHost m) (merged FUsername m) (merged FPassword m) = Inr client
                    \<and> DataSourceData resp = Some client \<and> ResourceData resp = Some client)
              \<and> merged FHost m \<noteq> [] \<and> merged FUsername m \<noteq> [] \<and> merged FPassword m \<noteq> [])
          \<or> (HasError (Diagnostics resp)
              \<and> DataSourceData resp = None \<and> ResourceData resp = None)"
proof (cases env NewClient req "newResponse :: 'c ConfigureResponse" rule: Configure_outcomes)
  case read_failed
  then show ?thesis by (simp add: Let_def newResponse_def)
next
  case unknown
  then show ?thesis by (simp add: Let_def HasError_append HasError_map_unknown newResponse_def)
next
  case missing
  then show ?thesis by (simp add: Let_def HasError_append HasError_map_missing newResponse_def)
next
  case (refused err)
  then show ?thesis by (simp add: Let_def HasError_append newResponse_def)
next
  case (built client)
  then show ?thesis by (simp add: Let_def missingFields_Nil_iff)
qed

theorem all_or_nothing_witness:
  "\<not> HasError (Diagnostics (fst (Configure envA acceptAll (request configA) newResponse)))
   \<and> DataSourceData (fst (Configure envA acceptAll (request configA) newResponse)) =
       Some (''http://x'', ''u'', ''p'')
   \<and> ResourceData (fst (Configure envA acceptAll (request configA) newResponse)) =
       Some (''http://x'', ''u'', ''p'')
   \<and> HasError (Diagnostics (fst (Configure envA refuseAll (request configA) newResponse)))
   \<and> DataSourceData (fst (Configure envA refuseAll (request configA) newResponse)) = None
   \<and> ResourceData (fst (Configure envA refuseAll (request configA) newResponse)) = None"
proof -
  have m: "mergeEnv envA configA = (''http://x'', ''u'', ''p'')"
    by (simp add: mergeEnv_def envA_def configA_def Getenv_def)
  have ok: "\<not> HasError (Diagnostics (fst (Configure envA acceptAll (request configA) newResponse)))"
    by (simp add: scenarioA_built)
  have bad: "HasError (Diagnostics (fst (Configure envA refuseAll (request configA) newResponse)))"
    by (simp add: scenarioA_refused)
  from all_or_nothing [where env = envA and NewClient = acceptAll and req = "request configA"] ok
  have 1: "DataSourceData (fst (Configure envA acceptAll (request configA) newResponse)) =
       Some (''http://x'', ''u'', ''p'')
   \<and> ResourceData (fst (Configure envA acceptAll (request configA) newResponse)) =
       Some (''http://x'', ''u'', ''p'')"
    by (simp add: Let_def request_def m acceptAll_def)
  from all_or_nothing [where env = envA and NewClient = refuseAll and req = "request configA"] bad
  have 2: "DataSourceData (fst (Configure envA refuseAll (request configA) newResponse)) = None
   \<and> ResourceData (fst (Configure envA refuseAll (request configA) newResponse)) = None"
    by (simp add: Let_def)
  from ok bad 1 2 show ?thesis by simp
qed

text \<open>
  Claim C2 (precedence), as the claim states it: a null field whose variable is unset or
  empty would always end in a Missing-Value Error for that field.  It does not when
  another field is unknown: with the host unknown, the username null and an empty
  environment, \<open>Configure\<close> returns at the gate of phase 1 with the Unresolved-Value
  Error of the host alone.
\<close>

theorem precedence_counterexample:
  "explicit FUsername (Config_Get_value (request configUnknownHost)) = StringNull
   \<and> (Map.empty :: environ) (envName FUsername) = None
   \<and> missingValueError FUsername \<notin>
       set (Diagnostics (fst (Configure Map.empty acceptAll (request configUnknownHost) newResponse)))
   \<and> Configure Map.empty acceptAll (request configUnknownHost) newResponse =
       (\<lparr>Diagnostics = [unknownValueError FHost], DataSourceData = None, ResourceData = None\<rparr>,
        traceStart)"
  by (simp add: unknownHost_stops missing_neq_unknown
        del: unknownValueError.simps missingValueError.simps)
    (simp add: request_def configUnknownHost_def)

text \<open>
  Claim C2, amended.  Write \<open>passed\<close> for: the configuration read reported no error and
  no field is unknown.  For each field \<open>f\<close> and \<open>Configure\<close> on a new response:
  \<^item> a known explicit value \<open>v\<close> is the merged value; if \<open>passed\<close>, every call of the
    client constructor has \<open>v\<close> as its argument for \<open>f\<close>, and the Missing-Value Error of
    \<open>f\<close> occurs once if \<open>v\<close> is empty and not at all otherwise;
  \<^item> with a null explicit value and the variable set to a non-empty \<open>b\<close>, the merged value
    is \<open>b\<close>; if \<open>passed\<close>, every call of the constructor has \<open>b\<close> as its argument for
    \<open>f\<close>, and the Missing-Value Error of \<open>f\<close> does not occur;
  \<^item> with a null explicit value and the variable unset or empty, the merged value is
    empty and the resolution fails: an error in the collection, both slots empty, the
    constructor not called; if \<open>passed\<close>, the Missing-Value Error of \<open>f\<close> occurs exactly
    once;
  \<^item> if \<open>passed\<close> and no field's Missing-Value Error occurs, the constructor is called
    exactly once.
\<close>

theorem precedence_resolution:
  fixes NewClient :: "string \<Rightarrow> string \<Rightarrow> string \<Rightarrow> string + 'c"
  shows "let config = Config_Get_value req;
             m = mergeEnv env config;
             r = Configure env NewClient req newResponse;
             passed = (\<not> HasError (Config_Get_diags req) \<and> unknownFields config = [])
         in (explicit f config = StringValue v \<longrightarrow>
               merged f m = v
               \<and> (passed \<longrightarrow>
                    (\<forall>h u p. ClientNew h u p \<in> set (snd r) \<longrightarrow> merged f (h, u, p) = v)
                    \<and> count_list (Diagnostics (fst r)) (missingValueError f) =
                        (if v = [] then 1 else 0)))
          \<and> (explicit f config = StringNull \<and> env (envName f) = Some b \<and> b \<noteq> [] \<longrightarrow>
               merged f m = b
               \<and> (passed \<longrightarrow>
                    (\<forall>h u p. ClientNew h u p \<in> set (snd r) \<longrightarrow> merged f (h, u, p) = b)
                    \<and> count_list (Diagnostics (fst r)) (missingValueError f) = 0))
          \<and> (explicit f config = StringNull \<and> (env (envName f) = None \<or> env (envName f) = Some [])
               \<longrightarrow> merged f m = []
                 \<and> HasError (Diagnostics (fst r))
                 \<and> DataSourceData (fst r) = None \<and> ResourceData (fst r) = None
                 \<and> \<not> list_ex isClientNew (snd r)
                 \<and> (passed \<longrightarrow> count_list (Diagnostics (fst r)) (missingValueError f) = 1))
          \<and> (passed \<and> (\<forall>g. count_list (Diagnostics (fst r)) (missingValueError g) = 0) \<longrightarrow>
               (\<exists>h u p. filter isClientNew (snd r) = [ClientNew h u p]))"
proof -
  let ?c = "Config_Get_value req"
  let ?m = "mergeEnv env ?c"
  let ?r = "Configure env NewClient req newResponse"
  let ?passed = "\<not> HasError (Config_Get_diags req) \<and> unknownFields ?c = []"
  have args: "merged f (h, u, p) = merged f ?m"
    if "?passed" and "ClientNew h u p \<in> set (snd ?r)" for h u p
  proof -
    from that(1) have calls: "filter isClientNew (snd ?r) =
           (if missingFields env ?c = []
            then [ClientNew (merged FHost ?m) (merged FUsername ?m) (merged FPassword ?m)]
            else [])"
      using Configure_new_calls [where NewClient = NewClient and req = req and env = env] by blast
    from that(2) have "ClientNew h u p \<in> set (filter isClientNew (snd ?r))" by simp
    then have "ClientNew h u p \<in> set (if missingFields env ?c = []
            then [ClientNew (merged FHost ?m) (merged FUsername ?m) (merged FPassword ?m)]
            else [])"
      unfolding calls .
    then have "h = merged FHost ?m \<and> u = merged FUsername ?m \<and> p = merged FPassword ?m"
      by (simp split: if_splits)
    then show ?thesis by (cases f) simp_all
  qed
  have cnt: "count_list (Diagnostics (fst ?r)) (missingValueError g) =
               (if merged g ?m = [] then 1 else 0)" if "?passed" for g
    using that Configure_new_count_missing [where NewClient = NewClient and req = req] by blast
  have p1: "merged f ?m = v
               \<and> (?passed \<longrightarrow>
                    (\<forall>h u p. ClientNew h u p \<in> set (snd ?r) \<longrightarrow> merged f (h, u, p) = v)
                    \<and> count_list (Diagnostics (fst ?r)) (missingValueError f) =
                        (if v = [] then 1 else 0))"
    if a: "explicit f ?c = StringValue v"
  proof -
    from a have e: "merged f ?m = v" by (simp add: merged_mergeEnv_field)
    with args cnt [of f] show ?thesis by auto
  qed
  have p2: "merged f ?m = b
               \<and> (?passed \<longrightarrow>
                    (\<forall>h u p. ClientNew h u p \<in> set (snd ?r) \<longrightarrow> merged f (h, u, p) = b)
                    \<and> count_list (Diagnostics (fst ?r)) (missingValueError f) = 0)"
    if a: "explicit f ?c = StringNull \<and> env (envName f) = Some b \<and> b \<noteq> []"
  proof -
    from a have e: "merged f ?m = b" by (simp add: merged_mergeEnv_field Getenv_def)
    with a args cnt [of f] show ?thesis by auto
  qed
  have p3: "merged f ?m = []
                 \<and> HasError (Diagnostics (fst ?r))
                 \<and> DataSourceData (fst ?r) = None \<and> ResourceData (fst ?r) = None
                 \<and> \<not> list_ex isClientNew (snd ?r)
                 \<and> (?passed \<longrightarrow> count_list (Diagnostics (fst ?r)) (missingValueError f) = 1)"
    if a: "explicit f ?c = StringNull \<and> (env (envName f) = None \<or> env (envName f) = Some [])"
  proof -
    from a have e: "merged f ?m = []"
      by (auto simp: merged_mergeEnv_field Getenv_def)
    from Configure_new_fails_missing [where NewClient = NewClient, OF e]
      Configure_new_no_call_missing [where NewClient = NewClient, OF e]
      cnt [of f] e
    show ?thesis by simp
  qed
  have p4: "\<exists>h u p. filter isClientNew (snd ?r) = [ClientNew h u p]"
    if a: "?passed \<and> (\<forall>g. count_list (Diagnostics (fst ?r)) (missingValueError g) = 0)"
  proof -
    from a cnt have "merged g ?m \<noteq> []" for g
      by (metis zero_neq_one)
    then have "missingFields env ?c = []" by (simp add: missingFields_Nil_iff)
    with a Configure_new_calls [where NewClient = NewClient and req = req and env = env]
    show ?thesis by simp
  qed
  from p1 p2 p3 p4 show ?thesis unfolding Let_def by blast
qed

theorem precedence_resolution_witness:
  "\<not> HasError (Config_Get_diags (request configA))
   \<and> unknownFields (Config_Get_value (request configA)) = []
   \<and> explicit FHost (Config_Get_value (request configA)) = StringValue ''http://x''
   \<and> explicit FUsername (Config_Get_value (request configA)) = StringNull
   \<and> envA (envName FUsername) = Some ''u''
   \<and> explicit FPassword (Config_Get_value (request configA)) = StringNull
   \<and> envA (envName FPassword) = Some ''p''
   \<and> filter isClientNew (snd (Configure envA acceptAll (request configA) newResponse)) =
       [ClientNew ''http://x'' ''u'' ''p'']
   \<and> explicit FPassword (Config_Get_value (request configB)) = StringNull
   \<and> (Map.empty :: environ) (envName FPassword) = None
   \<and> unknownFields (Config_Get_value (request configB)) = []
   \<and> count_list (Diagnostics (fst (Configure Map.empty acceptAll (request configB) newResponse)))
        (missingValueError FPassword) = 1
   \<and> \<not> list_ex isClientNew (snd (Configure Map.empty acceptAll (request configB) newResponse))"
proof -
  let ?r = "Configure envA acceptAll (request configA) newResponse"
  have ok: "\<not> HasError (Config_Get_diags (request configA))"
      "unknownFields (Config_Get_value (request configA)) = []"
    and a: "explicit FHost (Config_Get_value (request configA)) = StringValue ''http://x''"
    and b: "explicit FUsername (Config_Get_value (request configA)) = StringNull"
      "envA (envName FUsername) = Some ''u''"
    and c: "explicit FPassword (Config_Get_value (request configA)) = StringNull"
      "envA (envName FPassword) = Some ''p''"
    and d: "explicit FPassword (Config_Get_value (request configB)) = StringNull"
      "(Map.empty :: environ) (envName FPassword) = None"
      "unknownFields (Config_Get_value (request configB)) = []"
      "\<not> HasError (Config_Get_diags (request configB))"
    by (simp_all add: request_def configA_def configB_def envA_def unknownFields_def allFields_def)
  from precedence_resolution [where env = envA and req = "request configA" and f = FHost
      and v = "''http://x''" and NewClient = acceptAll] ok a
  have 1: "\<forall>h u p. ClientNew h u p \<in> set (snd ?r) \<longrightarrow> h = ''http://x''"
    and n1: "count_list (Diagnostics (fst ?r)) (missingValueError FHost) = 0"
    by (simp_all add: Let_def del: missingValueError.simps)
  from precedence_resolution [where env = envA and req = "request configA" and f = FUsername
      and b = "''u''" and NewClient = acceptAll] ok b
  have 2: "\<forall>h u p. ClientNew h u p \<in> set (snd ?r) \<longrightarrow> u = ''u''"
    and n2: "count_list (Diagnostics (fst ?r)) (missingValueError FUsername) = 0"
    by (simp_all add: Let_def del: missingValueError.simps)
  from precedence_resolution [where env = envA and req = "request configA" and f = FPassword
      and b = "''p''" and NewClient = acceptAll] ok c
  have 3: "\<forall>h u p. ClientNew h u p \<in> set (snd ?r) \<longrightarrow> p = ''p''"
    and n3: "count_list (Diagnostics (fst ?r)) (missingValueError FPassword) = 0"
    by (simp_all add: Let_def del: missingValueError.simps)
  have none: "\<forall>g. count_list (Diagnostics (fst ?r)) (missingValueError g) = 0"
  proof
    fix g from n1 n2 n3 show "count_list (Diagnostics (fst ?r)) (missingValueError g) = 0"
      by (cases g) simp_all
  qed
  from precedence_resolution [where env = envA and req = "request configA"
      and NewClient = acceptAll] ok none
  obtain h u p where call: "filter isClientNew (snd ?r) = [ClientNew h u p]"
    unfolding Let_def by blast
  then have "ClientNew h u p \<in> set (filter isClientNew (snd ?r))" by simp
  then have "ClientNew h u p \<in> set (snd ?r)" by simp
  with 1 2 3 have "h = ''http://x''" "u = ''u''" "p = ''p''" by blast+
  with call have 4: "filter isClientNew (snd ?r) = [ClientNew ''http://x'' ''u'' ''p'']" by simp
  from precedence_resolution [where env = Map.empty and req = "request configB" and f = FPassword
      and NewClient = acceptAll] d
  have 5: "count_list (Diagnostics (fst (Configure Map.empty acceptAll (request configB) newResponse)))
        (missingValueError FPassword) = 1
   \<and> \<not> list_ex isClientNew (snd (Configure Map.empty acceptAll (request configB) newResponse))"
    by (simp add: Let_def del: missingValueError.simps)
  from ok a b c d 4 5 show ?thesis by simp
qed

text \<open>
  Claim C3 (explicit empty string), as the claim states it: an explicit empty value
  would give way to a non-empty value of the environment.  It does not: with the host
  explicitly empty and \<^verbatim>\<open>SNA_HOST\<close> set, the merged host is empty, and \<open>Configure\<close>
  reports the host as missing and builds no client.
\<close>

theorem empty_override_counterexample:
  "explicit FHost configEmptyHost = StringValue []
   \<and> envHost (envName FHost) = Some ''sna.example''
   \<and> merged FHost (mergeEnv envHost configEmptyHost) \<noteq> ''sna.example''
   \<and> Configure envHost acceptAll (request configEmptyHost) newResponse =
       (\<lparr>Diagnostics = [missingValueError FHost], DataSourceData = None, ResourceData = None\<rparr>,
        traceMerged)"
proof -
  have "mergeEnv envHost configEmptyHost = ([], ''u'', ''p'')"
    by (simp add: mergeEnv_def configEmptyHost_def envHost_def Getenv_def)
  then show ?thesis
    by (simp add: emptyHost_missing del: missingValueError.simps)
      (simp add: configEmptyHost_def envHost_def)
qed

text \<open>
  Claim C3, amended.  For every field supplied as a known empty string the merged value
  is the empty string, and the outcome of \<open>Configure\<close> is the same whatever the
  variable of that field holds, set or unset.  The resolution fails: an error in the
  collection, both slots empty, the client constructor not called.  If the pipeline
  reached the merge (no error from the configuration read, no unknown field) the
  collection holds the Missing-Value Error of that field exactly once.
\<close>

theorem empty_explicit_overrides:
  fixes NewClient :: "string \<Rightarrow> string \<Rightarrow> string \<Rightarrow> string + 'c"
  assumes "explicit f (Config_Get_value req) = StringValue []"
  shows "merged f (mergeEnv env (Config_Get_value req)) = []
       \<and> (\<forall>x. Configure (env(envName f := x)) NewClient req newResponse =
                Configure env NewClient req newResponse)
       \<and> HasError (Diagnostics (fst (Configure env NewClient req newResponse)))
       \<and> DataSourceData (fst (Configure env NewClient req newResponse)) = None
       \<and> ResourceData (fst (Configure env NewClient req newResponse)) = None
       \<and> \<not> list_ex isClientNew (snd (Configure env NewClient req newResponse))
       \<and> (\<not> HasError (Config_Get_diags req) \<and> unknownFields (Config_Get_value req) = [] \<longrightarrow>
            count_list (Diagnostics (fst (Configure env NewClient req newResponse)))
              (missingValueError f) = 1)"
proof -
  from assms have e: "merged f (mergeEnv env (Config_Get_value req)) = []"
    by (simp add: merged_mergeEnv_field)
  have ind: "Configure (env(envName f := x)) NewClient req newResponse =
                Configure env NewClient req newResponse" for x
  proof (rule Configure_cong_mergeEnv)
    from assms have "\<not> IsNull (explicit f (Config_Get_value req))" by simp
    then show "mergeEnv (env(envName f := x)) (Config_Get_value req) =
                 mergeEnv env (Config_Get_value req)"
      by (rule mergeEnv_env_update)
  qed
  from Configure_new_fails_missing [where NewClient = NewClient, OF e]
    Configure_new_no_call_missing [where NewClient = NewClient, OF e]
    Configure_new_count_missing [where NewClient = NewClient and req = req and env = env and f = f]
    e ind
  show ?thesis by simp
qed

theorem empty_explicit_overrides_witness:
  "explicit FHost (Config_Get_value (request configEmptyHost)) = StringValue []
   \<and> Getenv envHost (envName FHost) = ''sna.example''
   \<and> merged FHost (mergeEnv envHost (Config_Get_value (request configEmptyHost))) = []
   \<and> Configure (envHost(envName FHost := None)) acceptAll (request configEmptyHost) newResponse =
       Configure envHost acceptAll (request configEmptyHost) newResponse
   \<and> HasError (Diagnostics (fst (Configure envHost acceptAll (request configEmptyHost) newResponse)))
   \<and> \<not> list_ex isClientNew (snd (Configure envHost acceptAll (request configEmptyHost) newResponse))
   \<and> count_list (Diagnostics (fst (Configure envHost acceptAll (request configEmptyHost) newResponse)))
        (missingValueError FHost) = 1"
proof -
  have a: "explicit FHost (Config_Get_value (request configEmptyHost)) = StringValue []"
    and b: "Getenv envHost (envName FHost) = ''sna.example''"
    and c: "\<not> HasError (Config_Get_diags (request configEmptyHost))"
      "unknownFields (Config_Get_value (request configEmptyHost)) = []"
    by (simp_all add: request_def configEmptyHost_def envHost_def Getenv_def unknownFields_def
          allFields_def)
  from empty_explicit_overrides [where NewClient = acceptAll and env = envHost, OF a] a b c
  show ?thesis by blast
qed

text \<open>
  Claim C4 (phase 1 gate).  When the configuration read reported no error and at least
  one of host, username and password is unknown, \<open>Configure\<close> on a new response leaves
  the forwarded diagnostics followed by the Unresolved-Value Error of each unknown field,
  in the order host, username, password, and nothing else: each such error occurs exactly
  once for an unknown field and not at all for another field, and no Missing-Value Error
  occurs.  It returns before the merge: the events hold no read of the environment and no
  call of the client constructor, and both client slots stay empty.
\<close>

theorem unknown_gate:
  assumes "\<not> HasError (Config_Get_diags req)"
    and "IsUnknown (Host (Config_Get_value req)) \<or> IsUnknown (Username (Config_Get_value req))
           \<or> IsUnknown (Password (Config_Get_value req))"
  shows "Configure env NewClient req newResponse =
           (\<lparr>Diagnostics = forwarded req [] @
                            map unknownValueError (unknownFields (Config_Get_value req)),
             DataSourceData = None, ResourceData = None\<rparr>, traceStart)
       \<and> (\<forall>f. count_list (Diagnostics (fst (Configure env NewClient req newResponse)))
                 (unknownValueError f) =
               (if IsUnknown (explicit f (Config_Get_value req)) then 1 else 0))
       \<and> (\<forall>f. missingValueError f \<notin> set (Diagnostics (fst (Configure env NewClient req newResponse))))
       \<and> \<not> list_ex isEnvRead (snd (Configure env NewClient req newResponse))
       \<and> \<not> list_ex isClientNew (snd (Configure env NewClient req newResponse))"
proof -
  let ?c = "Config_Get_value req"
  have fw: "\<not> HasError (forwarded req [])"
    using assms(1) by (simp add: HasError_forwarded)
  have uk: "unknownFields ?c \<noteq> []"
    using assms(2) by (simp add: unknownFields_Nil_iff)
  note eq = Configure_new_unknown [OF assms(1) uk, of env NewClient]
  have cnt: "count_list (Diagnostics (fst (Configure env NewClient req newResponse)))
                 (unknownValueError f) = (if IsUnknown (explicit f ?c) then 1 else 0)" for f
    using fw by (simp add: eq count_list_no_error count_unknownFields)
  have nomiss: "missingValueError f \<notin> set (Diagnostics (fst (Configure env NewClient req newResponse)))" for f
  proof -
    have "missingValueError f \<notin> set (forwarded req [])"
      using fw by (rule no_error_not_member) simp
    moreover have "missingValueError f \<notin> unknownValueError ` set (unknownFields ?c)"
      by (auto simp: image_iff missing_neq_unknown simp del: missingValueError.simps unknownValueError.simps)
    ultimately show ?thesis by (simp add: eq)
  qed
  show ?thesis
    using eq cnt nomiss traceStart_quiet by simp
qed

theorem unknown_gate_witness:
  "\<not> HasError (Config_Get_diags (request configC))
   \<and> IsUnknown (Host (Config_Get_value (request configC)))
   \<and> Configure envA acceptAll (request configC) newResponse =
       (\<lparr>Diagnostics = [unknownValueError FHost], DataSourceData = None, ResourceData = None\<rparr>,
        traceStart)"
  using unknown_gate [of "request configC" envA acceptAll]
  by (simp add: request_def configC_def forwarded_def unknownFields_def allFields_def
        del: unknownValueError.simps)

text \<open>
  Claim C5 (completeness gate).  For every input that passes phase 1 (no error from the
  configuration read, no unknown field), the collection that \<open>Configure\<close> leaves holds
  the Missing-Value Error of a field exactly once if the merged value of the field is
  empty, and not at all otherwise.  If some merged value is empty, the collection is the
  forwarded diagnostics followed by these errors, both slots are empty and the events
  hold no call of the client constructor.  With all three fields null and an empty
  environment the result is the three Missing-Value Errors and no client.
\<close>

theorem completeness_gate:
  fixes NewClient :: "string \<Rightarrow> string \<Rightarrow> string \<Rightarrow> string + 'c"
  assumes "\<not> HasError (Config_Get_diags req)"
    and "unknownFields (Config_Get_value req) = []"
  shows "(\<forall>f. count_list (Diagnostics (fst (Configure env NewClient req newResponse)))
                 (missingValueError f) =
               (if merged f (mergeEnv env (Config_Get_value req)) = [] then 1 else 0))
       \<and> (missingFields env (Config_Get_value req) \<noteq> [] \<longrightarrow>
            Configure env NewClient req newResponse =
              (\<lparr>Diagnostics = forwarded req [] @
                   map missingValueError (missingFields env (Config_Get_value req)),
                DataSourceData = None, ResourceData = None\<rparr>, traceMerged)
            \<and> \<not> list_ex isClientNew (snd (Configure env NewClient req newResponse)))
       \<and> Configure Map.empty NewClient (request configB) newResponse =
            (\<lparr>Diagnostics = [missingValueError FHost, missingValueError FUsername,
                              missingValueError FPassword],
              DataSourceData = None, ResourceData = None\<rparr>, traceMerged)"
proof -
  let ?c = "Config_Get_value req"
  let ?r = "Configure env NewClient req newResponse"
  have cnt: "count_list (Diagnostics (fst ?r)) (missingValueError f) =
               (if merged f (mergeEnv env ?c) = [] then 1 else 0)" for f
    using assms by (rule Configure_new_count_missing)
  have gate: "Configure env NewClient req newResponse =
              (\<lparr>Diagnostics = forwarded req [] @ map missingValueError (missingFields env ?c),
                DataSourceData = None, ResourceData = None\<rparr>, traceMerged)
            \<and> \<not> list_ex isClientNew (snd ?r)" if "missingFields env ?c \<noteq> []"
    using Configure_new_missing [where NewClient = NewClient, OF assms that]
    by (simp add: traceCalled_events)
  from cnt gate scenarioB_missing [of NewClient] show ?thesis by blast
qed

theorem completeness_gate_witness:
  "\<not> HasError (Config_Get_diags (request configEmptyHost))
   \<and> unknownFields (Config_Get_value (request configEmptyHost)) = []
   \<and> missingFields envHost (Config_Get_value (request configEmptyHost)) = [FHost]
   \<and> Configure envHost acceptAll (request configEmptyHost) newResponse =
       (\<lparr>Diagnostics = [missingValueError FHost], DataSourceData = None, ResourceData = None\<rparr>,
        traceMerged)
   \<and> count_list (Diagnostics (fst (Configure envHost acceptAll (request configEmptyHost) newResponse)))
        (missingValueError FUsername) = 0"
proof -
  have m: "mergeEnv envHost configEmptyHost = ([], ''u'', ''p'')"
    by (simp add: mergeEnv_def configEmptyHost_def envHost_def Getenv_def)
  have a: "\<not> HasError (Config_Get_diags (request configEmptyHost))"
    and b: "unknownFields (Config_Get_value (request configEmptyHost)) = []"
    and c: "missingFields envHost (Config_Get_value (request configEmptyHost)) = [FHost]"
    by (simp_all add: request_def unknownFields_def missingFields_def allFields_def m,
        simp add: configEmptyHost_def)
  from completeness_gate [where NewClient = acceptAll and env = envHost, OF a b] a b c
  show ?thesis
    by (simp add: request_def forwarded_def m missingValueError_inj del: missingValueError.simps)
qed

text \<open>
  Claim C6 (phase 1 accepts null).  Phase 1 is \<open>checkUnknown\<close>.  It only extends the
  collection; for a field whose explicit value is null, none of the diagnostics it adds
  is at that field's path; if no field is unknown it adds nothing.  And when the
  configuration read left no error and no field is unknown, \<open>Configure\<close> goes on to the
  merge: its events begin with the three reads of the environment.
\<close>

theorem absent_passes_phase1:
  fixes NewClient :: "string \<Rightarrow> string \<Rightarrow> string \<Rightarrow> string + 'c"
  shows "(explicit f config = StringNull \<longrightarrow>
            (\<forall>d \<in> set (drop (length ds) (checkUnknown config ds)). fieldPath d \<noteq> Some (attrName f)))
       \<and> take (length ds) (checkUnknown config ds) = ds
       \<and> (unknownFields config = [] \<longrightarrow> checkUnknown config ds = ds)
       \<and> (\<not> HasError (forwarded req (Diagnostics resp0)) \<and> unknownFields (Config_Get_value req) = []
            \<longrightarrow> (\<exists>rest. snd (Configure env NewClient req resp0) = traceMerged @ rest)
               \<and> list_ex isEnvRead (snd (Configure env NewClient req resp0)))"
proof -
  have a: "\<forall>d \<in> set (drop (length ds) (checkUnknown config ds)). fieldPath d \<noteq> Some (attrName f)"
    if "explicit f config = StringNull"
  proof
    fix d assume "d \<in> set (drop (length ds) (checkUnknown config ds))"
    then obtain g where g: "d = unknownValueError g" "IsUnknown (explicit g config)"
      by (auto simp: checkUnknown_general simp del: unknownValueError.simps)
    with that have "g \<noteq> f" by auto
    with g show "fieldPath d \<noteq> Some (attrName f)" by (simp add: attrName_inj)
  qed
  have b: "take (length ds) (checkUnknown config ds) = ds"
    by (simp add: checkUnknown_general)
  have c: "checkUnknown config ds = ds" if "unknownFields config = []"
  proof -
    from that have "\<not> IsUnknown (explicit g config)" for g
      by (simp add: unknownFields_Nil_iff_all)
    then show ?thesis by (simp add: checkUnknown_general)
  qed
  have d: "(\<exists>rest. snd (Configure env NewClient req resp0) = traceMerged @ rest)
               \<and> list_ex isEnvRead (snd (Configure env NewClient req resp0))"
    if "\<not> HasError (forwarded req (Diagnostics resp0)) \<and> unknownFields (Config_Get_value req) = []"
  proof (cases env NewClient req resp0 rule: Configure_outcomes)
    case read_failed
    with that show ?thesis by simp
  next
    case unknown
    with that show ?thesis by simp
  next
    case missing
    then show ?thesis by (simp add: traceCalled_events)
  next
    case (refused err)
    then show ?thesis by (simp add: traceCalled_def traceCalled_events)
  next
    case (built client)
    then show ?thesis by (simp add: traceCalled_def traceCalled_events)
  qed
  from a b c d show ?thesis by blast
qed

theorem absent_passes_phase1_witness:
  "explicit FHost (Config_Get_value (request configB)) = StringNull
   \<and> unknownFields (Config_Get_value (request configB)) = []
   \<and> \<not> HasError (forwarded (request configB) (Diagnostics respWarned))
   \<and> checkUnknown configB [deprecation] = [deprecation]
   \<and> list_ex isEnvRead (snd (Configure Map.empty acceptAll (request configB) respWarned))"
proof -
  have a: "explicit FHost (Config_Get_value (request configB)) = StringNull"
    and b: "unknownFields (Config_Get_value (request configB)) = []"
      "unknownFields configB = []"
    and c: "\<not> HasError (forwarded (request configB) (Diagnostics respWarned))"
    by (simp_all add: request_def configB_def unknownFields_def allFields_def forwarded_def
          respWarned_def deprecation_def)
  from absent_passes_phase1 [where NewClient = acceptAll and env = Map.empty and config = configB
      and ds = "[deprecation]" and req = "request configB" and ?resp0.0 = respWarned] a b c
  show ?thesis by blast
qed

text \<open>
  Claim C7 (construction failure).  For every input that passes the three gates, if the
  client constructor returns an error with text \<open>err\<close>, then \<open>Configure\<close> on a new
  response leaves the forwarded diagnostics, none of them an error, followed by exactly
  one error diagnostic: its summary is the fixed text, its detail is a fixed preamble
  followed by \<open>err\<close>.  The constructor was called exactly once, and both slots are empty.
\<close>

theorem construction_failure:
  fixes NewClient :: "string \<Rightarrow> string \<Rightarrow> string \<Rightarrow> string + 'c"
  assumes "\<not> HasError (Config_Get_diags req)"
    and "unknownFields (Config_Get_value req) = []"
    and "missingFields env (Config_Get_value req) = []"
    and "NewClient (merged FHost (mergeEnv env (Config_Get_value req)))
           (merged FUsername (mergeEnv env (Config_Get_value req)))
           (merged FPassword (mergeEnv env (Config_Get_value req))) = Inl err"
  shows "Configure env NewClient req newResponse =
           (\<lparr>Diagnostics = forwarded req [] @ [constructionError err],
             DataSourceData = None, ResourceData = None\<rparr>,
            traceCalled (mergeEnv env (Config_Get_value req)))
       \<and> \<not> HasError (forwarded req [])
       \<and> severity (constructionError err) = SeverityError
       \<and> summary (constructionError err) = ''Unable to Create Secure Network Analytics API Client''
       \<and> (\<exists>pre. (\<forall>err'. detail (constructionError err') = pre @ err'))
       \<and> length (filter isClientNew (snd (Configure env NewClient req newResponse))) = 1"
proof -
  note eq = Configure_new_refused [where NewClient = NewClient, OF assms]
  have "\<forall>err'. detail (constructionError err') = constructionPreamble @ err'"
    by (simp add: constructionError_def)
  then have pre: "\<exists>pre. (\<forall>err'. detail (constructionError err') = pre @ err')" ..
  have s: "summary (constructionError err) = ''Unable to Create Secure Network Analytics API Client''"
    by (simp add: constructionError_def constructionSummary_def)
  from eq pre s assms(1) show ?thesis
    by (simp add: HasError_forwarded traceCalled_events)
qed

theorem construction_failure_witness:
  "\<not> HasError (Config_Get_diags (request configA))
   \<and> unknownFields (Config_Get_value (request configA)) = []
   \<and> missingFields envA (Config_Get_value (request configA)) = []
   \<and> fst (Configure envA refuseAll (request configA) newResponse) =
       \<lparr>Diagnostics = [constructionError ''connection refused''],
        DataSourceData = None, ResourceData = None\<rparr>
   \<and> length (filter isClientNew (snd (Configure envA refuseAll (request configA) newResponse))) = 1"
proof -
  have m: "mergeEnv envA configA = (''http://x'', ''u'', ''p'')"
    by (simp add: mergeEnv_def envA_def configA_def Getenv_def)
  have a: "\<not> HasError (Config_Get_diags (request configA))"
    and b: "unknownFields (Config_Get_value (request configA)) = []"
    and c: "missingFields envA (Config_Get_value (request configA)) = []"
    and d: "refuseAll (merged FHost (mergeEnv envA (Config_Get_value (request configA))))
           (merged FUsername (mergeEnv envA (Config_Get_value (request configA))))
           (merged FPassword (mergeEnv envA (Config_Get_value (request configA)))) = Inl ''connection refused''"
    by (simp_all add: request_def unknownFields_def missingFields_def allFields_def m refuseAll_def,
        simp add: configA_def)
  from construction_failure [where NewClient = refuseAll, OF a b c d] a b c show ?thesis
    by (simp add: request_def forwarded_def traceCalled_events)
qed

text \<open>
  Claim C9 (one client for both slots).  For every incoming response: if \<open>Configure\<close>
  leaves a collection without error, the data-source slot and the resource slot hold the
  same client, the one the constructor returned for the merged triple; if it leaves an
  error, it did not touch either slot.
\<close>

theorem shared_client:
  fixes NewClient :: "string \<Rightarrow> string \<Rightarrow> string \<Rightarrow> string + 'c"
  shows "let resp = fst (Configure env NewClient req resp0);
             m = mergeEnv env (Config_Get_value req)
         in (\<not> HasError (Diagnostics resp) \<longrightarrow>
               (\<exists>client. NewClient (merged FHost m) (merged FUsername m) (merged FPassword m) = Inr client
                   \<and> DataSourceData resp = Some client \<and> ResourceData resp = Some client))
          \<and> (HasError (Diagnostics resp) \<longrightarrow>
               DataSourceData resp = DataSourceData resp0 \<and> ResourceData resp = ResourceData resp0)"
proof (cases env NewClient req resp0 rule: Configure_outcomes)
  case read_failed
  then show ?thesis by (simp add: Let_def)
next
  case unknown
  then show ?thesis by (simp add: Let_def HasError_append HasError_map_unknown)
next
  case missing
  then show ?thesis by (simp add: Let_def HasError_append HasError_map_missing)
next
  case (refused err)
  then show ?thesis by (simp add: Let_def HasError_append)
next
  case (built client)
  then show ?thesis by (simp add: Let_def)
qed

theorem shared_client_witness:
  "\<not> HasError (Diagnostics (fst (Configure envA acceptAll (request configA) respWarned)))
   \<and> DataSourceData (fst (Configure envA acceptAll (request configA) respWarned)) =
       Some (''http://x'', ''u'', ''p'')
   \<and> ResourceData (fst (Configure envA acceptAll (request configA) respWarned)) =
       Some (''http://x'', ''u'', ''p'')"
proof -
  have m: "mergeEnv envA configA = (''http://x'', ''u'', ''p'')"
    by (simp add: mergeEnv_def envA_def configA_def Getenv_def)
  have ok: "\<not> HasError (Diagnostics (fst (Configure envA acceptAll (request configA) respWarned)))"
    by (simp add: scenarioA_warned deprecation_def)
  from shared_client [where env = envA and NewClient = acceptAll and req = "request configA"
      and ?resp0.0 = respWarned] ok
  have "DataSourceData (fst (Configure envA acceptAll (request configA) respWarned)) =
       Some (''http://x'', ''u'', ''p'')
   \<and> ResourceData (fst (Configure envA acceptAll (request configA) respWarned)) =
       Some (''http://x'', ''u'', ''p'')"
    by (simp add: Let_def request_def m acceptAll_def)
  with ok show ?thesis by simp
qed

text \<open>
  Claim C10 (the core adds errors only).  The collection that \<open>Configure\<close> leaves is the
  forwarded diagnostics followed by what the core added, and every diagnostic the core
  added has severity error.  So, when the forwarded diagnostics hold no error, the
  collection ends with an error exactly when the core added a diagnostic; and each phase
  gate, reached with a collection free of errors, fires exactly when its phase added a
  diagnostic.
\<close>

theorem core_appends_errors_only:
  fixes NewClient :: "string \<Rightarrow> string \<Rightarrow> string \<Rightarrow> string + 'c"
  shows "Diagnostics (fst (Configure env NewClient req resp0)) =
           forwarded req (Diagnostics resp0) @ coreAppended env NewClient req resp0
       \<and> (\<forall>d \<in> set (coreAppended env NewClient req resp0). severity d = SeverityError)
       \<and> (\<not> HasError (forwarded req (Diagnostics resp0)) \<longrightarrow>
            HasError (Diagnostics (fst (Configure env NewClient req resp0))) =
              (coreAppended env NewClient req resp0 \<noteq> []))
       \<and> (\<not> HasError ds \<longrightarrow> HasError (checkUnknown config ds) = (checkUnknown config ds \<noteq> ds))
       \<and> (\<not> HasError ds \<longrightarrow> HasError (checkMissing h u p ds) = (checkMissing h u p ds \<noteq> ds))"
proof -
  have gates: "(\<not> HasError ds \<longrightarrow> HasError (checkUnknown config ds) = (checkUnknown config ds \<noteq> ds))
       \<and> (\<not> HasError ds \<longrightarrow> HasError (checkMissing h u p ds) = (checkMissing h u p ds \<noteq> ds))"
    by (simp add: checkUnknown_eq checkMissing_eq HasError_append HasError_map_unknown
          HasError_map_missing)
  have "Diagnostics (fst (Configure env NewClient req resp0)) =
           forwarded req (Diagnostics resp0) @ coreAppended env NewClient req resp0
       \<and> (\<forall>d \<in> set (coreAppended env NewClient req resp0). severity d = SeverityError)
       \<and> (\<not> HasError (forwarded req (Diagnostics resp0)) \<longrightarrow>
            HasError (Diagnostics (fst (Configure env NewClient req resp0))) =
              (coreAppended env NewClient req resp0 \<noteq> []))"
  proof (cases env NewClient req resp0 rule: Configure_outcomes)
    case read_failed
    then show ?thesis by (simp add: coreAppended_def)
  next
    case unknown
    then show ?thesis by (simp add: coreAppended_def HasError_append HasError_map_unknown)
  next
    case missing
    then show ?thesis by (simp add: coreAppended_def HasError_append HasError_map_missing)
  next
    case (refused err)
    then show ?thesis by (simp add: coreAppended_def HasError_append)
  next
    case (built client)
    then show ?thesis by (simp add: coreAppended_def)
  qed
  with gates show ?thesis by blast
qed

theorem core_appends_errors_only_witness:
  "\<not> HasError (forwarded (request configB) (Diagnostics respWarned))
   \<and> Diagnostics (fst (Configure Map.empty acceptAll (request configB) respWarned)) =
       [deprecation] @ coreAppended Map.empty acceptAll (request configB) respWarned
   \<and> HasError (Diagnostics (fst (Configure Map.empty acceptAll (request configB) respWarned))) =
       (coreAppended Map.empty acceptAll (request configB) respWarned \<noteq> [])"
proof -
  have fw: "forwarded (request configB) (Diagnostics respWarned) = [deprecation]"
    by (simp add: forwarded_def request_def respWarned_def)
  have ok: "\<not> HasError (forwarded (request configB) (Diagnostics respWarned))"
    by (simp add: fw deprecation_def)
  note inst = core_appends_errors_only [where env = Map.empty and NewClient = acceptAll
      and req = "request configB" and ?resp0.0 = respWarned]
  from inst have "Diagnostics (fst (Configure Map.empty acceptAll (request configB) respWarned)) =
       forwarded (request configB) (Diagnostics respWarned) @
       coreAppended Map.empty acceptAll (request configB) respWarned"
    by (rule conjunct1)
  then have d: "Diagnostics (fst (Configure Map.empty acceptAll (request configB) respWarned)) =
       [deprecation] @ coreAppended Map.empty acceptAll (request configB) respWarned"
    unfolding fw .
  from inst ok
  have h: "HasError (Diagnostics (fst (Configure Map.empty acceptAll (request configB) respWarned))) =
       (coreAppended Map.empty acceptAll (request configB) respWarned \<noteq> [])"
    by blast
  from ok d h show ?thesis by blast
qed

end
